theory Spec2Isabelle
  imports Main
begin

section \<open>Strings of the platform\<close>

text \<open>
  A string is a list of code units; the model covers the code units U+0000 to U+00FF,
  one \<^typ>\<open>char\<close> each. The string methods the program calls are written out below for
  that range.
\<close>

text \<open>\<^verbatim>\<open>String.prototype.trim\<close> strips white space and line terminators from both ends:
  in the range of the model these are TAB, LF, VT, FF, CR, SPACE and NBSP.\<close>

definition isWhiteSpace :: "char \<Rightarrow> bool" where
  "isWhiteSpace c = (of_char c \<in> {9, 10, 11, 12, 13, 32, 160 :: nat})"

definition trim :: "string \<Rightarrow> string" where
  "trim s = rev (dropWhile isWhiteSpace (rev (dropWhile isWhiteSpace s)))"

text \<open>\<^verbatim>\<open>String.prototype.toLowerCase\<close>: the upper-case letters of the range are A to Z and
  U+00C0 to U+00DE without the multiplication sign U+00D7; each has its lower-case letter
  32 code units above.\<close>

definition toLowerCase_char :: "char \<Rightarrow> char" where
  "toLowerCase_char c =
     (let n = of_char c :: nat
      in if (65 \<le> n \<and> n \<le> 90) \<or> (192 \<le> n \<and> n \<le> 222 \<and> n \<noteq> 215)
         then char_of (n + 32) else c)"

definition toLowerCase :: "string \<Rightarrow> string" where
  "toLowerCase s = map toLowerCase_char s"

text \<open>\<^verbatim>\<open>s.startsWith(p)\<close> and \<^verbatim>\<open>s.includes(t)\<close>, both case-sensitive.\<close>

fun startsWith :: "string \<Rightarrow> string \<Rightarrow> bool" where
  "startsWith s [] = True"
| "startsWith [] (p # ps) = False"
| "startsWith (c # cs) (p # ps) = (c = p \<and> startsWith cs ps)"

fun includes_str :: "string \<Rightarrow> string \<Rightarrow> bool" where
  "includes_str [] t = (t = [])"
| "includes_str (c # cs) t = (startsWith (c # cs) t \<or> includes_str cs t)"

text \<open>The decimal rendering of an integral number, as a template literal interpolates it
  (\<^verbatim>\<open>Number::toString\<close> below the exponent notation).\<close>

definition digit_char :: "nat \<Rightarrow> char" where
  "digit_char d = char_of (48 + d)"

function string_of_nat :: "nat \<Rightarrow> string" where
  "string_of_nat n =
     (if n < 10 then [digit_char n] else string_of_nat (n div 10) @ [digit_char (n mod 10)])"
  by pat_completeness auto
termination
  by (relation "measure (\<lambda>n. n)") auto

declare string_of_nat.simps [simp del]

definition Number_toString :: "int \<Rightarrow> string" where
  "Number_toString i =
     (if i < 0 then CHR ''-'' # string_of_nat (nat (- i)) else string_of_nat (nat i))"

section \<open>Data model\<close>

text \<open>\<^verbatim>\<open>interface Link { id: string; name: string; url: string; }\<close>\<close>

record Link =
  link_id :: string
  name :: string
  url :: string

section \<open>JSON text of a link list\<close>

text \<open>
  \<^verbatim>\<open>JSON.stringify\<close> on a \<^verbatim>\<open>Link[]\<close>: an array of objects whose members are the three
  string properties in creation order, without white space. A string is quoted with the
  escapes of \<^verbatim>\<open>QuoteJSONString\<close>: the two-character escapes for backspace, tab, line feed,
  form feed, carriage return, the quotation mark and the backslash, \<^verbatim>\<open>\u00xx\<close> with
  lower-case hexadecimal digits for the other code units below U+0020, and every other
  code unit as it is.
\<close>

definition hex_digit :: "nat \<Rightarrow> char" where
  "hex_digit n = (if n < 10 then char_of (48 + n) else char_of (87 + n))"

definition QuoteJSONChar :: "char \<Rightarrow> string" where
  "QuoteJSONChar c =
     (if c = CHR 0x08 then [CHR 0x5C, CHR ''b'']
      else if c = CHR 0x09 then [CHR 0x5C, CHR ''t'']
      else if c = CHR 0x0A then [CHR 0x5C, CHR ''n'']
      else if c = CHR 0x0C then [CHR 0x5C, CHR ''f'']
      else if c = CHR 0x0D then [CHR 0x5C, CHR ''r'']
      else if c = CHR 0x22 then [CHR 0x5C, CHR 0x22]
      else if c = CHR 0x5C then [CHR 0x5C, CHR 0x5C]
      else if (of_char c :: nat) < 32
        then [CHR 0x5C, CHR ''u'', CHR ''0'', CHR ''0'',
              hex_digit (of_char c div 16), hex_digit (of_char c mod 16)]
      else [c])"

definition QuoteJSONString :: "string \<Rightarrow> string" where
  "QuoteJSONString s = CHR 0x22 # concat (map QuoteJSONChar s) @ [CHR 0x22]"

definition stringify_Link :: "Link \<Rightarrow> string" where
  \<open>stringify_Link l =
     ''{"id":'' @ QuoteJSONString (link_id l) @
     '',"name":'' @ QuoteJSONString (name l) @
     '',"url":'' @ QuoteJSONString (url l) @ ''}''\<close>

fun stringify_elements :: "Link list \<Rightarrow> string" where
  "stringify_elements [] = []"
| "stringify_elements [l] = stringify_Link l"
| "stringify_elements (l # l' # ls) = stringify_Link l @ CHR '','' # stringify_elements (l' # ls)"

definition JSON_stringify :: "Link list \<Rightarrow> string" where
  "JSON_stringify ls = CHR ''['' # stringify_elements ls @ [CHR '']'']"

text \<open>
  \<^verbatim>\<open>JSON.parse\<close>, for the texts that denote a \<^verbatim>\<open>Link[]\<close>: an array of objects whose
  members are all strings and include \<^verbatim>\<open>id\<close>, \<^verbatim>\<open>name\<close> and \<^verbatim>\<open>url\<close> (of a repeated key
  the last member counts, members under other keys are not part of a \<^verbatim>\<open>Link\<close>). The
  text is first cut into tokens, with JSON's insignificant white space between them and
  JSON's string escapes, then read by the grammar. The result \<open>None\<close> stands for both
  remaining cases: \<^verbatim>\<open>JSON.parse\<close> throws a \<^verbatim>\<open>SyntaxError\<close>, or it returns a value that
  is not a \<^verbatim>\<open>Link[]\<close> and that the source would assign unchecked. An escape for a code
  unit above U+00FF is outside the model and gives \<open>None\<close> as well.
\<close>

datatype token = LBracket | RBracket | LBrace | RBrace | Comma | Colon | Str string

definition hex_value :: "char \<Rightarrow> nat option" where
  "hex_value c =
     (let n = of_char c :: nat
      in if 48 \<le> n \<and> n \<le> 57 then Some (n - 48)
         else if 97 \<le> n \<and> n \<le> 102 then Some (n - 87)
         else if 65 \<le> n \<and> n \<le> 70 then Some (n - 55)
         else None)"

definition unicode_escape :: "string \<Rightarrow> (char \<times> string) option" where
  "unicode_escape r =
     (case r of
        a # b # c # d # r' \<Rightarrow>
          (case (hex_value a, hex_value b, hex_value c, hex_value d) of
             (Some p, Some q, Some x, Some y) \<Rightarrow>
               (let n = ((p * 16 + q) * 16 + x) * 16 + y
                in if n < 256 then Some (char_of n, r') else None)
           | _ \<Rightarrow> None)
      | _ \<Rightarrow> None)"

definition unescape :: "string \<Rightarrow> (char \<times> string) option" where
  "unescape cs =
     (case cs of
        [] \<Rightarrow> None
      | e # r \<Rightarrow>
          if e = CHR 0x22 then Some (CHR 0x22, r)
          else if e = CHR 0x5C then Some (CHR 0x5C, r)
          else if e = CHR ''/'' then Some (CHR ''/'', r)
          else if e = CHR ''b'' then Some (CHR 0x08, r)
          else if e = CHR ''f'' then Some (CHR 0x0C, r)
          else if e = CHR ''n'' then Some (CHR 0x0A, r)
          else if e = CHR ''r'' then Some (CHR 0x0D, r)
          else if e = CHR ''t'' then Some (CHR 0x09, r)
          else if e = CHR ''u'' then unicode_escape r
          else None)"

lemma unicode_escape_shorter: "unicode_escape r = Some (x, r') \<Longrightarrow> length r' < length r"
  by (auto simp: unicode_escape_def Let_def split: list.splits option.splits if_splits)

lemma unescape_shorter: "unescape cs = Some (x, r) \<Longrightarrow> length r < length cs"
  by (auto simp: unescape_def split: list.splits if_splits dest: unicode_escape_shorter)

text \<open>The tokenizer: \<open>None\<close> as first argument between tokens, \<open>Some acc\<close> inside a string
  literal of which \<open>acc\<close> has been read.\<close>

function tokenize :: "string option \<Rightarrow> string \<Rightarrow> token list option" where
  "tokenize None [] = Some []"
| "tokenize (Some acc) [] = None"
| "tokenize None (c # cs) =
     (if c = CHR ''['' then map_option (Cons LBracket) (tokenize None cs)
      else if c = CHR '']'' then map_option (Cons RBracket) (tokenize None cs)
      else if c = CHR ''{'' then map_option (Cons LBrace) (tokenize None cs)
      else if c = CHR ''}'' then map_option (Cons RBrace) (tokenize None cs)
      else if c = CHR '','' then map_option (Cons Comma) (tokenize None cs)
      else if c = CHR '':'' then map_option (Cons Colon) (tokenize None cs)
      else if c = CHR '' '' \<or> c = CHR 0x09 \<or> c = CHR 0x0A \<or> c = CHR 0x0D then tokenize None cs
      else if c = CHR 0x22 then tokenize (Some []) cs
      else None)"
| "tokenize (Some acc) (c # cs) =
     (if c = CHR 0x22 then map_option (Cons (Str acc)) (tokenize None cs)
      else if c = CHR 0x5C then
        (case unescape cs of
           None \<Rightarrow> None
         | Some (x, r) \<Rightarrow> tokenize (Some (acc @ [x])) r)
      else if (of_char c :: nat) < 32 then None
      else tokenize (Some (acc @ [c])) cs)"
  by pat_completeness auto
termination
  by (relation "measure (\<lambda>(st, cs). length cs)") (auto dest: unescape_shorter)

fun parse_members :: "token list \<Rightarrow> ((string \<times> string) list \<times> token list) option" where
  "parse_members (Str k # Colon # Str v # Comma # ts) =
     (case parse_members ts of None \<Rightarrow> None | Some (m, r) \<Rightarrow> Some ((k, v) # m, r))"
| "parse_members (Str k # Colon # Str v # RBrace # ts) = Some ([(k, v)], ts)"
| "parse_members _ = None"

lemma parse_members_shorter: "parse_members ts = Some (m, r) \<Longrightarrow> length r < length ts"
  by (induction ts arbitrary: m r rule: parse_members.induct)
     (auto split: option.splits)

definition to_Link :: "(string \<times> string) list \<Rightarrow> Link option" where
  "to_Link m =
     (case (map_of (rev m) ''id'', map_of (rev m) ''name'', map_of (rev m) ''url'') of
        (Some i, Some n, Some u) \<Rightarrow> Some \<lparr>link_id = i, name = n, url = u\<rparr>
      | _ \<Rightarrow> None)"

function (sequential) parse_elements :: "token list \<Rightarrow> Link list option" where
  "parse_elements (LBrace # ts) =
     (case parse_members ts of
        None \<Rightarrow> None
      | Some (m, r) \<Rightarrow>
          (case to_Link m of
             None \<Rightarrow> None
           | Some l \<Rightarrow>
               (case r of
                  [RBracket] \<Rightarrow> Some [l]
                | Comma # r' \<Rightarrow> map_option (Cons l) (parse_elements r')
                | _ \<Rightarrow> None)))"
| "parse_elements _ = None"
  by pat_completeness auto
termination
  by (relation "measure length") (auto dest: parse_members_shorter)

definition JSON_parse :: "string \<Rightarrow> Link list option" where
  "JSON_parse text =
     (case tokenize None text of
        None \<Rightarrow> None
      | Some ts \<Rightarrow>
          (case ts of
             [LBracket, RBracket] \<Rightarrow> Some []
           | LBracket # ts' \<Rightarrow> parse_elements ts'
           | _ \<Rightarrow> None))"

text \<open>The tokens of the text that \<^verbatim>\<open>JSON.stringify\<close> writes for a record and for the
  elements of a list.\<close>

definition Link_tokens :: "Link \<Rightarrow> token list" where
  "Link_tokens l = [LBrace, Str ''id'', Colon, Str (link_id l), Comma, Str ''name'', Colon, Str (name l),
     Comma, Str ''url'', Colon, Str (url l), RBrace]"

fun elements_tokens :: "Link list \<Rightarrow> token list" where
  "elements_tokens [] = []"
| "elements_tokens [l] = Link_tokens l"
| "elements_tokens (l # l' # ls) = Link_tokens l @ Comma # elements_tokens (l' # ls)"

section \<open>State of the page\<close>

text \<open>
  A card as \<^verbatim>\<open>createLinkCard\<close> builds it: the \<^verbatim>\<open>div.link-card\<close> with its
  \<^verbatim>\<open>data-id\<close> and background colour, the anchor's \<^verbatim>\<open>href\<close>, the first source of the
  favicon, the \<^verbatim>\<open>textContent\<close> of \<^verbatim>\<open>span.link-name\<close> and the \<^verbatim>\<open>aria-label\<close> of the
  delete button. The two fields \<^verbatim>\<open>handleDeleteLink\<close> reads behind a guard are optional.
\<close>

record card =
  dataset_id :: "string option"
  backgroundColor :: "string option"
  href :: string
  favicon_src :: string
  link_name :: "string option"
  aria_label :: string

text \<open>The content of \<^verbatim>\<open>linksContainer\<close>: markup assigned to \<^verbatim>\<open>innerHTML\<close>, which the
  browser parses as HTML, or the cards appended as child nodes.\<close>

datatype container = InnerHTML string | Children "card list"

record theme_btn =
  dataset_theme :: "string option"
  btn_classList :: "string list"
  aria_checked :: "string option"

text \<open>
  The module's variables and the parts of the browser it writes: the \<^verbatim>\<open>links\<close> array,
  the palette \<^verbatim>\<open>CARD_COLORS\<close> in its order after the shuffle at start-up,
  \<^verbatim>\<open>localStorage\<close>, the container of the cards, the class list of \<^verbatim>\<open>document.body\<close>,
  the theme buttons, and the messages shown by \<^verbatim>\<open>alert\<close>, oldest first.

  The browser may refuse a write to \<^verbatim>\<open>localStorage\<close>, when the quota of the origin is
  used up or storage is switched off: \<open>setItem_accepts s store key value\<close> tells whether
  it takes the write of \<open>value\<close> under \<open>key\<close> into \<open>store\<close>. The program never changes
  this verdict.
\<close>

record state =
  links :: "Link list"
  CARD_COLORS :: "string list"
  localStorage :: "string \<rightharpoonup> string"
  setItem_accepts :: "(string \<rightharpoonup> string) \<Rightarrow> string \<Rightarrow> string \<Rightarrow> bool"
  linksContainer :: container
  body_classList :: "string list"
  theme_btns :: "theme_btn list"
  alerts :: "string list"

text \<open>
  A function of the program returns, or an exception leaves it uncaught; the state
  reached is kept in both cases. \<open>TypeError\<close> is what \<^verbatim>\<open>new URL\<close> throws,
  \<open>QuotaExceededError\<close> what \<^verbatim>\<open>localStorage.setItem\<close> throws for a write it refuses.

  The third outcome belongs to \<^verbatim>\<open>loadLinksFromStorage\<close> alone: the stored text is not the
  text of a \<^verbatim>\<open>Link[]\<close>, and the source then either leaves with the \<^verbatim>\<open>SyntaxError\<close> of
  \<^verbatim>\<open>JSON.parse\<close> or returns with \<^verbatim>\<open>links\<close> set, unchecked, to a value that is no
  \<^verbatim>\<open>Link[]\<close>. The model follows the program no further there; the state it carries is
  the state before the call.
\<close>

datatype error = TypeError | QuotaExceededError

datatype outcome = Returned state | Threw error state | Not_a_Link_array state

fun state_of :: "outcome \<Rightarrow> state" where
  "state_of (Returned s) = s"
| "state_of (Threw e s) = s"

section \<open>Persistence\<close>

text \<open>\<^verbatim>\<open>localStorage.setItem(key, value)\<close>: the store with the value under the key, or
  \<open>None\<close> for the exception of a refused write, which leaves the store as it was.\<close>

definition setItem :: "string \<Rightarrow> string \<Rightarrow> state \<Rightarrow> state option" where
  "setItem key v s =
     (if setItem_accepts s (localStorage s) key v
      then Some (s\<lparr>localStorage := (localStorage s)(key \<mapsto> v)\<rparr>)
      else None)"

definition saveLinksToStorage :: "Link list \<Rightarrow> state \<Rightarrow> outcome" where
  "saveLinksToStorage linksToSave s =
     (case setItem ''savedLinks'' (JSON_stringify linksToSave) s of
        None \<Rightarrow> Threw QuotaExceededError s
      | Some s' \<Rightarrow> Returned s')"

definition loadLinksFromStorage :: "state \<Rightarrow> outcome" where
  "loadLinksFromStorage s =
     (case localStorage s ''savedLinks'' of
        None \<Rightarrow> Returned s
      | Some storedLinks \<Rightarrow>
          if storedLinks \<noteq> [] then
            (case JSON_parse storedLinks of
               None \<Rightarrow> Not_a_Link_array s
             | Some parsed \<Rightarrow> Returned (s\<lparr>links := parsed\<rparr>))
          else Returned s)"

section \<open>Rendering\<close>

text \<open>
  The constructor \<^verbatim>\<open>new URL\<close> of the platform is a parameter of the model: \<open>new_URL u\<close> is
  \<open>None\<close> where the constructor throws and the \<^verbatim>\<open>hostname\<close> of the parsed URL otherwise.
\<close>

definition createLinkCard :: "(string \<Rightarrow> string option) \<Rightarrow> string list \<Rightarrow> Link \<Rightarrow> nat \<Rightarrow> card option" where
  "createLinkCard new_URL colors link index =
     (case new_URL (url link) of
        None \<Rightarrow> None
      | Some domain \<Rightarrow>
          Some \<lparr>dataset_id = Some (link_id link),
                backgroundColor =
                  (if colors = [] then None else Some (colors ! (index mod length colors))),
                href = url link,
                favicon_src = ''https://www.google.com/s2/favicons?sz=64&domain_url='' @ domain,
                link_name = Some (name link),
                aria_label = ''Delete '' @ name link\<rparr>)"

text \<open>The \<^verbatim>\<open>forEach\<close> of \<^verbatim>\<open>renderLinks\<close>: cards are appended one at a time, and a card
  whose URL does not parse ends the loop with the cards appended so far (\<open>False\<close>).\<close>

fun appendCards ::
  "(string \<Rightarrow> string option) \<Rightarrow> string list \<Rightarrow> nat \<Rightarrow> Link list \<Rightarrow> card list \<Rightarrow> card list \<times> bool" where
  "appendCards new_URL colors index [] appended = (appended, True)"
| "appendCards new_URL colors index (link # rest) appended =
     (case createLinkCard new_URL colors link index of
        None \<Rightarrow> (appended, False)
      | Some c \<Rightarrow> appendCards new_URL colors (Suc index) rest (appended @ [c]))"

definition filteredLinks :: "Link list \<Rightarrow> string \<Rightarrow> Link list" where
  "filteredLinks ls searchTerm =
     (let lowerCaseSearchTerm = toLowerCase (trim searchTerm)
      in if lowerCaseSearchTerm \<noteq> []
         then filter (\<lambda>link. includes_str (toLowerCase (name link)) lowerCaseSearchTerm) ls
         else ls)"

definition renderLinks :: "(string \<Rightarrow> string option) \<Rightarrow> string \<Rightarrow> state \<Rightarrow> outcome" where
  \<open>renderLinks new_URL searchTerm s =
     (let filtered = filteredLinks (links s) searchTerm
      in if filtered = [] then
           (if links s = [] then
              Returned (s\<lparr>linksContainer :=
                InnerHTML ''<p class="empty-message">Your shelf is empty. Add a link to get started!</p>''\<rparr>)
            else
              Returned (s\<lparr>linksContainer :=
                InnerHTML (''<p class="empty-message">No links found matching "'' @ searchTerm @ ''".</p>'')\<rparr>))
         else
           (case appendCards new_URL (CARD_COLORS s) 0 filtered [] of
              (cs, True) \<Rightarrow> Returned (s\<lparr>linksContainer := Children cs\<rparr>)
            | (cs, False) \<Rightarrow> Threw TypeError (s\<lparr>linksContainer := Children cs\<rparr>)))\<close>

section \<open>Event handlers\<close>

text \<open>
  \<^verbatim>\<open>handleAddLink\<close> reads the two fields of the form and the search bar; their values
  are arguments here, and so is the clock reading \<^verbatim>\<open>Date.now()\<close>. The calls
  \<^verbatim>\<open>form.reset()\<close> and \<^verbatim>\<open>linkNameInput.focus()\<close> that end the handler act on the form
  controls only.
\<close>

definition alert :: "string \<Rightarrow> state \<Rightarrow> state" where
  "alert message s = s\<lparr>alerts := alerts s @ [message]\<rparr>"

text \<open>The assignment that puts \<^verbatim>\<open>https://\<close> in front of a trimmed URL that starts with
  neither \<^verbatim>\<open>http://\<close> nor \<^verbatim>\<open>https://\<close>.\<close>

definition prefixed_url :: "string \<Rightarrow> string" where
  "prefixed_url url0 =
     (if \<not> startsWith url0 ''http://'' \<and> \<not> startsWith url0 ''https://''
      then ''https://'' @ url0 else url0)"

definition handleAddLink ::
  "(string \<Rightarrow> string option) \<Rightarrow> int \<Rightarrow> string \<Rightarrow> string \<Rightarrow> string \<Rightarrow> state \<Rightarrow> outcome" where
  "handleAddLink new_URL now linkNameInput_value linkUrlInput_value searchInput_value s =
     (let name' = trim linkNameInput_value;
          url0 = trim linkUrlInput_value
      in if name' = [] \<or> url0 = [] then Returned s
         else
           let url' = prefixed_url url0
           in case new_URL url' of
                None \<Rightarrow> Returned (alert ''Please enter a valid URL.'' s)
              | Some parsed \<Rightarrow>
                  let newLink = \<lparr>link_id = ''link-'' @ Number_toString now, name = name', url = url'\<rparr>;
                      s1 = s\<lparr>links := newLink # links s\<rparr>
                  in case saveLinksToStorage (links s1) s1 of
                       Returned s2 \<Rightarrow> renderLinks new_URL searchInput_value s2
                     | uncaught \<Rightarrow> uncaught)"

text \<open>
  The click that \<^verbatim>\<open>handleDeleteLink\<close> receives: the class list of the target and the
  card found by \<^verbatim>\<open>target.closest('.link-card')\<close>. The answer of the user to \<^verbatim>\<open>confirm\<close>
  is a function of the question.
\<close>

record click =
  target_classList :: "string list"
  closest_link_card :: "card option"

definition delete_question :: "card \<Rightarrow> string" where
  \<open>delete_question c =
     (let linkName = (case link_name c of
                        None \<Rightarrow> ''this link''
                      | Some t \<Rightarrow> if t \<noteq> [] then t else ''this link'')
      in ''Are you sure you want to delete "'' @ linkName @ ''"?'')\<close>

definition handleDeleteLink ::
  "(string \<Rightarrow> string option) \<Rightarrow> (string \<Rightarrow> bool) \<Rightarrow> click \<Rightarrow> string \<Rightarrow> state \<Rightarrow> outcome" where
  "handleDeleteLink new_URL confirm e searchInput_value s =
     (if ''delete-btn'' \<in> set (target_classList e) then
        (case closest_link_card e of
           None \<Rightarrow> Returned s
         | Some c \<Rightarrow>
             (case dataset_id c of
                None \<Rightarrow> Returned s
              | Some linkId \<Rightarrow>
                  if linkId \<noteq> [] then
                    (if confirm (delete_question c) then
                       (let s1 = s\<lparr>links := filter (\<lambda>link. link_id link \<noteq> linkId) (links s)\<rparr>
                        in case saveLinksToStorage (links s1) s1 of
                             Returned s2 \<Rightarrow> renderLinks new_URL searchInput_value s2
                           | uncaught \<Rightarrow> uncaught)
                     else Returned s)
                  else Returned s))
      else Returned s)"

definition handleSearch :: "(string \<Rightarrow> string option) \<Rightarrow> string \<Rightarrow> state \<Rightarrow> outcome" where
  "handleSearch new_URL searchInput_value s = renderLinks new_URL searchInput_value s"

section \<open>Themes\<close>

text \<open>A class list is a \<^verbatim>\<open>DOMTokenList\<close>: \<^verbatim>\<open>remove\<close> takes every given token out,
  \<^verbatim>\<open>add\<close> appends a token that is not there, \<^verbatim>\<open>toggle\<close> with a second argument
  adds or removes as that argument says.\<close>

definition classList_remove :: "string list \<Rightarrow> string list \<Rightarrow> string list" where
  "classList_remove tokens cl = filter (\<lambda>c. c \<notin> set tokens) cl"

definition classList_add :: "string \<Rightarrow> string list \<Rightarrow> string list" where
  "classList_add t cl = (if t \<in> set cl then cl else cl @ [t])"

definition classList_toggle :: "string \<Rightarrow> bool \<Rightarrow> string list \<Rightarrow> string list" where
  "classList_toggle t force cl = (if force then classList_add t cl else classList_remove [t] cl)"

definition update_btn :: "string \<Rightarrow> theme_btn \<Rightarrow> theme_btn" where
  "update_btn theme btn =
     (let isActive = (dataset_theme btn = Some theme)
      in btn\<lparr>btn_classList := classList_toggle ''active'' isActive (btn_classList btn),
              aria_checked := Some (if isActive then ''true'' else ''false'')\<rparr>)"

text \<open>The classes of the body are set before the write to the store, the buttons after
  it: a refused write leaves the new classes and the buttons as they were.\<close>

definition applyTheme :: "string \<Rightarrow> state \<Rightarrow> outcome" where
  "applyTheme theme s =
     (let cl = classList_remove [''theme-dark'', ''theme-sepia''] (body_classList s);
          cl' = (if theme = ''dark'' then classList_add ''theme-dark'' cl
                 else if theme = ''sepia'' then classList_add ''theme-sepia'' cl
                 else cl);
          s1 = s\<lparr>body_classList := cl'\<rparr>
      in case setItem ''theme'' theme s1 of
           None \<Rightarrow> Threw QuotaExceededError s1
         | Some s2 \<Rightarrow> Returned (s2\<lparr>theme_btns := map (update_btn theme) (theme_btns s2)\<rparr>))"

definition loadTheme :: "state \<Rightarrow> outcome" where
  "loadTheme s =
     (let savedTheme = (case localStorage s ''theme'' of
                          None \<Rightarrow> ''light''
                        | Some t \<Rightarrow> if t \<noteq> [] then t else ''light'')
      in applyTheme savedTheme s)"

section \<open>Inputs of the examples\<close>

text \<open>The verdict of \<^verbatim>\<open>new URL\<close> on the URLs that the examples below pass to it, with
  the host name it extracts: \<^verbatim>\<open>http://\<close> has no host and is refused.\<close>

definition example_URL :: "string \<Rightarrow> string option" where
  "example_URL u =
     (if u = ''https://example.com'' then Some ''example.com''
      else if u = ''https://github.com'' then Some ''github.com''
      else if u = ''https://gitlab.com'' then Some ''gitlab.com''
      else if u = ''https://reddit.com'' then Some ''reddit.com''
      else None)"

text \<open>A browser that takes every write to the store, and one that takes none (storage
  switched off, or no quota left).\<close>

definition accept_every_write :: "(string \<rightharpoonup> string) \<Rightarrow> string \<Rightarrow> string \<Rightarrow> bool" where
  "accept_every_write store key v = True"

definition refuse_every_write :: "(string \<rightharpoonup> string) \<Rightarrow> string \<Rightarrow> string \<Rightarrow> bool" where
  "refuse_every_write store key v = False"

text \<open>The page before any link is stored, the same page in a browser that refuses the
  writes, and a shelf of three links.\<close>

definition empty_page :: state where
  "empty_page =
     \<lparr>links = [], CARD_COLORS = [''#ffadad'', ''#ffd6a5'', ''#fdffb6'', ''#caffbf'',
                                  ''#9bf6ff'', ''#a0c4ff'', ''#bdb2ff'', ''#ffc6ff''],
      localStorage = Map.empty, setItem_accepts = accept_every_write,
      linksContainer = InnerHTML [], body_classList = [],
      theme_btns = [], alerts = []\<rparr>"

definition full_store_page :: state where
  "full_store_page = empty_page\<lparr>setItem_accepts := refuse_every_write\<rparr>"

definition three_links :: "Link list" where
  "three_links =
     [\<lparr>link_id = ''link-3'', name = ''GitHub'', url = ''https://github.com''\<rparr>,
      \<lparr>link_id = ''link-2'', name = ''gitlab'', url = ''https://gitlab.com''\<rparr>,
      \<lparr>link_id = ''link-1'', name = ''Reddit'', url = ''https://reddit.com''\<rparr>]"

text \<open>A click on the delete button of the card of the link with id \<open>i\<close> and name \<open>n\<close>,
  and a user who answers yes to every question.\<close>

definition delete_click :: "string \<Rightarrow> string \<Rightarrow> click" where
  "delete_click i n =
     \<lparr>target_classList = [''delete-btn''],
      closest_link_card = Some \<lparr>dataset_id = Some i, backgroundColor = None, href = [],
        favicon_src = [], link_name = Some n, aria_label = ''Delete '' @ n\<rparr>\<rparr>"

definition always_confirm :: "string \<Rightarrow> bool" where
  "always_confirm question = True"

text \<open>The theme style classes among the classes of \<^verbatim>\<open>document.body\<close>, in their order.\<close>

definition theme_classes :: "state \<Rightarrow> string list" where
  "theme_classes s = filter (\<lambda>c. c = ''theme-dark'' \<or> c = ''theme-sepia'') (body_classList s)"

section \<open>The JSON text of a link list reads back\<close>

text \<open>Reading back an escaped code unit, then a quoted string.\<close>

lemma hex_value_digit: "n < 16 \<Longrightarrow> hex_value (hex_digit n) = Some n"
  by (auto simp: hex_value_def hex_digit_def Let_def)

lemma hex_value_zero: "hex_value (CHR ''0'') = Some 0"
  by (simp add: hex_value_def)

lemma unicode_escape_hex:
  assumes "n < 256"
  shows "unicode_escape (CHR ''0'' # CHR ''0'' # hex_digit (n div 16) # hex_digit (n mod 16) # r)
           = Some (char_of n, r)"
proof -
  have d: "n div 16 < 16" using assms by simp
  have m: "n mod 16 < 16" by simp
  have e: "n div 16 * 16 + n mod 16 = n" by simp
  show ?thesis
    using assms by (simp add: unicode_escape_def hex_value_zero hex_value_digit [OF d] hex_value_digit [OF m] e del: mod_less)
qed

lemma unescape_u:
  "unescape (CHR ''u'' # CHR ''0'' # CHR ''0'' # hex_digit (of_char c div 16) # hex_digit (of_char c mod 16) # r)
     = Some (c, r)"
  using unicode_escape_hex [of "of_char c" r] by (simp add: unescape_def)

lemma tokenize_QuoteJSONChar:
  "tokenize (Some acc) (QuoteJSONChar c @ r) = tokenize (Some (acc @ [c])) r"
proof -
  consider (special) "c \<in> {CHR 0x08, CHR 0x09, CHR 0x0A, CHR 0x0C, CHR 0x0D, CHR 0x22, CHR 0x5C}"
    | (control) "c \<notin> {CHR 0x08, CHR 0x09, CHR 0x0A, CHR 0x0C, CHR 0x0D, CHR 0x22, CHR 0x5C}" "(of_char c :: nat) < 32"
    | (plain) "c \<notin> {CHR 0x08, CHR 0x09, CHR 0x0A, CHR 0x0C, CHR 0x0D, CHR 0x22, CHR 0x5C}" "\<not> (of_char c :: nat) < 32"
    by blast
  then show ?thesis
  proof cases
    case special
    then show ?thesis
      by (auto simp: QuoteJSONChar_def unescape_def)
  next
    case control
    then show ?thesis
      by (simp add: QuoteJSONChar_def unescape_u)
  next
    case plain
    then show ?thesis
      by (simp add: QuoteJSONChar_def)
  qed
qed

lemma tokenize_quoted:
  "tokenize (Some acc) (concat (map QuoteJSONChar s) @ CHR 0x22 # r)
     = map_option (Cons (Str (acc @ s))) (tokenize None r)"
  by (induction s arbitrary: acc) (simp_all add: tokenize_QuoteJSONChar)

lemma tokenize_QuoteJSONString:
  "tokenize None (QuoteJSONString s @ r) = map_option (Cons (Str s)) (tokenize None r)"
  using tokenize_quoted [of "[]" s r] by (simp add: QuoteJSONString_def)

text \<open>The tokens of a serialized record and of a serialized list.\<close>

lemma tokenize_stringify_Link:
  "tokenize None (stringify_Link l @ r) = map_option ((@) (Link_tokens l)) (tokenize None r)"
  by (cases "tokenize None r")
     (simp_all add: stringify_Link_def tokenize_QuoteJSONString Link_tokens_def option.map_comp comp_def)

lemma tokenize_stringify_elements:
  "tokenize None (stringify_elements ls @ r) = map_option ((@) (elements_tokens ls)) (tokenize None r)"
proof (induction ls rule: stringify_elements.induct)
  case 1
  show ?case by (cases "tokenize None r") simp_all
next
  case (2 l)
  show ?case by (simp add: tokenize_stringify_Link)
next
  case (3 l l' ls)
  show ?case
    using 3 by (cases "tokenize None r") (simp_all add: tokenize_stringify_Link)
qed

lemma tokenize_JSON_stringify:
  "tokenize None (JSON_stringify ls) = Some (LBracket # elements_tokens ls @ [RBracket])"
  using tokenize_stringify_elements [of ls "[CHR '']'']"]
  by (simp add: JSON_stringify_def)

lemma parse_members_Link:
  "parse_members (tl (Link_tokens l) @ r) = Some ([(''id'', link_id l), (''name'', name l), (''url'', url l)], r)"
  by (simp add: Link_tokens_def)

lemma to_Link_members:
  "to_Link [(''id'', link_id l), (''name'', name l), (''url'', url l)] = Some l"
  by (simp add: to_Link_def)

lemma parse_elements_Link:
  "parse_elements (Link_tokens l @ r) =
     (case r of [RBracket] \<Rightarrow> Some [l] | Comma # r' \<Rightarrow> map_option (Cons l) (parse_elements r') | _ \<Rightarrow> None)"
proof -
  have "parse_elements (Link_tokens l @ r) = parse_elements (LBrace # (tl (Link_tokens l) @ r))"
    by (simp add: Link_tokens_def)
  also have "\<dots> = (case r of [RBracket] \<Rightarrow> Some [l] | Comma # r' \<Rightarrow> map_option (Cons l) (parse_elements r') | _ \<Rightarrow> None)"
    by (simp only: parse_elements.simps parse_members_Link to_Link_members option.case prod.case)
  finally show ?thesis .
qed

lemma parse_elements_tokens:
  "ls \<noteq> [] \<Longrightarrow> parse_elements (elements_tokens ls @ [RBracket]) = Some ls"
proof (induction ls rule: elements_tokens.induct)
  case 1
  then show ?case by simp
next
  case (2 l)
  show ?case by (simp add: parse_elements_Link)
next
  case (3 l l' ls)
  then show ?case by (simp add: parse_elements_Link)
qed

lemma elements_tokens_LBrace:
  "ls \<noteq> [] \<Longrightarrow> \<exists>ts. elements_tokens ls = LBrace # ts"
  by (induction ls rule: elements_tokens.induct) (simp_all add: Link_tokens_def)

lemma JSON_parse_stringify: "JSON_parse (JSON_stringify ls) = Some ls"
proof (cases ls)
  case Nil
  then show ?thesis
    by (simp add: JSON_parse_def tokenize_JSON_stringify)
next
  case (Cons l ls')
  then obtain ts where ts: "elements_tokens ls = LBrace # ts"
    using elements_tokens_LBrace [of ls] by auto
  have "parse_elements (elements_tokens ls @ [RBracket]) = Some ls"
    using Cons parse_elements_tokens [of ls] by simp
  with ts show ?thesis
    by (simp add: JSON_parse_def tokenize_JSON_stringify)
qed

section \<open>Facts about the handlers\<close>

text \<open>The two ends of a save: the write is taken, or it is refused and nothing changes.\<close>

lemma saveLinksToStorage_accepted:
  "setItem_accepts s (localStorage s) ''savedLinks'' (JSON_stringify L) \<Longrightarrow>
   saveLinksToStorage L s
     = Returned (s\<lparr>localStorage := (localStorage s)(''savedLinks'' \<mapsto> JSON_stringify L)\<rparr>)"
  by (simp add: saveLinksToStorage_def setItem_def)

lemma saveLinksToStorage_refused:
  "\<not> setItem_accepts s (localStorage s) ''savedLinks'' (JSON_stringify L) \<Longrightarrow>
   saveLinksToStorage L s = Threw QuotaExceededError s"
  by (simp add: saveLinksToStorage_def setItem_def)

text \<open>Rendering writes the container only, whether it returns or stops at a card.\<close>

lemma renderLinks_fields [simp]:
  "links (state_of (renderLinks U t s)) = links s"
  "localStorage (state_of (renderLinks U t s)) = localStorage s"
  "alerts (state_of (renderLinks U t s)) = alerts s"
  by (simp_all add: renderLinks_def Let_def split: prod.splits bool.splits)

text \<open>A valid add: what it comes to when the write is taken and when it is refused, and
  the list in memory in both cases.\<close>

lemma handleAddLink_accepted:
  assumes "trim nameV \<noteq> []" and "trim urlV \<noteq> []"
    and "new_URL (prefixed_url (trim urlV)) \<noteq> None"
    and "setItem_accepts s (localStorage s) ''savedLinks'' (JSON_stringify (newLink # links s))"
    and "newLink = \<lparr>link_id = ''link-'' @ Number_toString now, name = trim nameV,
                     url = prefixed_url (trim urlV)\<rparr>"
  shows "handleAddLink new_URL now nameV urlV searchV s
          = renderLinks new_URL searchV
              (s\<lparr>links := newLink # links s,
                 localStorage := (localStorage s)(''savedLinks'' \<mapsto> JSON_stringify (newLink # links s))\<rparr>)"
  using assms by (auto simp: handleAddLink_def Let_def saveLinksToStorage_def setItem_def)

lemma handleAddLink_refused:
  assumes "trim nameV \<noteq> []" and "trim urlV \<noteq> []"
    and "new_URL (prefixed_url (trim urlV)) \<noteq> None"
    and "\<not> setItem_accepts s (localStorage s) ''savedLinks'' (JSON_stringify (newLink # links s))"
    and "newLink = \<lparr>link_id = ''link-'' @ Number_toString now, name = trim nameV,
                     url = prefixed_url (trim urlV)\<rparr>"
  shows "handleAddLink new_URL now nameV urlV searchV s
          = Threw QuotaExceededError (s\<lparr>links := newLink # links s\<rparr>)"
  using assms by (auto simp: handleAddLink_def Let_def saveLinksToStorage_def setItem_def)

lemma handleAddLink_links:
  assumes "trim nameV \<noteq> []" and "trim urlV \<noteq> []"
    and "new_URL (prefixed_url (trim urlV)) \<noteq> None"
  shows "links (state_of (handleAddLink new_URL now nameV urlV searchV s))
          = \<lparr>link_id = ''link-'' @ Number_toString now, name = trim nameV,
              url = prefixed_url (trim urlV)\<rparr> # links s"
proof -
  let ?new = "\<lparr>link_id = ''link-'' @ Number_toString now, name = trim nameV,
               url = prefixed_url (trim urlV)\<rparr>"
  show ?thesis
  proof (cases "setItem_accepts s (localStorage s) ''savedLinks'' (JSON_stringify (?new # links s))")
    case True
    with assms show ?thesis
      by (simp add: handleAddLink_accepted [where newLink = ?new])
  next
    case False
    with assms show ?thesis
      by (simp add: handleAddLink_refused [where newLink = ?new])
  qed
qed

text \<open>A confirmed delete, in the same two cases.\<close>

lemma handleDeleteLink_accepted:
  assumes "''delete-btn'' \<in> set (target_classList e)"
    and "closest_link_card e = Some c"
    and "dataset_id c = Some linkId" and "linkId \<noteq> []"
    and "confirm (delete_question c)"
    and "kept = filter (\<lambda>link. link_id link \<noteq> linkId) (links s)"
    and "setItem_accepts s (localStorage s) ''savedLinks'' (JSON_stringify kept)"
  shows "handleDeleteLink new_URL confirm e searchV s
          = renderLinks new_URL searchV
              (s\<lparr>links := kept,
                 localStorage := (localStorage s)(''savedLinks'' \<mapsto> JSON_stringify kept)\<rparr>)"
  using assms by (simp add: handleDeleteLink_def Let_def saveLinksToStorage_def setItem_def)

lemma handleDeleteLink_refused:
  assumes "''delete-btn'' \<in> set (target_classList e)"
    and "closest_link_card e = Some c"
    and "dataset_id c = Some linkId" and "linkId \<noteq> []"
    and "confirm (delete_question c)"
    and "kept = filter (\<lambda>link. link_id link \<noteq> linkId) (links s)"
    and "\<not> setItem_accepts s (localStorage s) ''savedLinks'' (JSON_stringify kept)"
  shows "handleDeleteLink new_URL confirm e searchV s
          = Threw QuotaExceededError (s\<lparr>links := kept\<rparr>)"
  using assms by (simp add: handleDeleteLink_def Let_def saveLinksToStorage_def setItem_def)

text \<open>A page whose slot holds the text of a list loads that list, whatever list it has
  in memory.\<close>

lemma loadLinksFromStorage_reads_back:
  assumes "localStorage s ''savedLinks'' = Some (JSON_stringify L)"
  shows "loadLinksFromStorage s = Returned (s\<lparr>links := L\<rparr>)"
proof -
  have "JSON_stringify L \<noteq> []"
    by (simp add: JSON_stringify_def)
  with assms show ?thesis
    by (simp add: loadLinksFromStorage_def JSON_parse_stringify)
qed

lemma rendered_page_reads_back:
  assumes "localStorage s ''savedLinks'' = Some (JSON_stringify (links s))"
  shows "loadLinksFromStorage ((state_of (renderLinks U t s))\<lparr>links := L0\<rparr>)
           = Returned (state_of (renderLinks U t s))"
proof -
  let ?r = "state_of (renderLinks U t s)"
  have "localStorage (?r\<lparr>links := L0\<rparr>) ''savedLinks'' = Some (JSON_stringify (links ?r))"
    using assms by simp
  then have "loadLinksFromStorage (?r\<lparr>links := L0\<rparr>) = Returned (?r\<lparr>links := L0, links := links ?r\<rparr>)"
    by (rule loadLinksFromStorage_reads_back)
  then show ?thesis by simp
qed

text \<open>The JSON text of the lists of the examples.\<close>

lemma JSON_stringify_examples:
  \<open>JSON_stringify [\<lparr>link_id = ''link-5'', name = ''Example'', url = ''https://example.com''\<rparr>]
     = ''[{"id":"link-5","name":"Example","url":"https://example.com"}]''\<close>
  \<open>JSON_stringify [three_links ! 0, three_links ! 2]
     = ''[{"id":"link-3","name":"GitHub","url":"https://github.com"},{"id":"link-1","name":"Reddit","url":"https://reddit.com"}]''\<close>
  by (simp_all add: JSON_stringify_def stringify_Link_def QuoteJSONString_def QuoteJSONChar_def
       three_links_def)

text \<open>The inputs of the examples, trimmed and rendered.\<close>

lemma trim_examples:
  "trim ''  Example '' = ''Example''"
  "trim ''Example'' = ''Example''"
  "trim ''GitHub'' = ''GitHub''"
  "trim ''x'' = ''x''"
  "trim ''example.com'' = ''example.com''"
  "trim '' example.com'' = ''example.com''"
  "trim ''github.com'' = ''github.com''"
  "trim ''http://'' = ''http://''"
  "trim ''   '' = []"
  "trim [] = []"
  "trim ''git'' = ''git''"
  "trim '' git'' = ''git''"
  "trim ''git '' = ''git''"
  "trim ''<b>x</b>'' = ''<b>x</b>''"
  by (simp_all add: trim_def isWhiteSpace_def)

lemma toLowerCase_examples:
  "toLowerCase ''git'' = ''git''"
  "toLowerCase ''git '' = ''git ''"
  "toLowerCase ''GitHub'' = ''github''"
  "toLowerCase ''gitlab'' = ''gitlab''"
  "toLowerCase ''Reddit'' = ''reddit''"
  "toLowerCase ''<b>x</b>'' = ''<b>x</b>''"
  by (simp_all add: toLowerCase_def toLowerCase_char_def char_of_eq_iff)

lemma example_URL_examples:
  "example_URL (prefixed_url ''example.com'') = Some ''example.com''"
  "example_URL (prefixed_url ''github.com'') = Some ''github.com''"
  "example_URL (prefixed_url ''http://'') = None"
  by (simp_all add: prefixed_url_def example_URL_def)

lemma Number_toString_examples:
  "Number_toString 5 = ''5''"
  "Number_toString 1730000000000 = ''1730000000000''"
  by (simp_all add: Number_toString_def string_of_nat.simps digit_char_def char_of_eq_iff)

subsection \<open>Substrings\<close>

lemma startsWith_iff: "startsWith s t \<longleftrightarrow> (\<exists>suf. s = t @ suf)"
  by (induction s t rule: startsWith.induct) auto

lemma includes_str_iff: "includes_str s t \<longleftrightarrow> (\<exists>pre suf. s = pre @ t @ suf)"
proof (induction s)
  case Nil
  then show ?case by auto
next
  case (Cons c cs)
  show ?case
  proof
    assume "includes_str (c # cs) t"
    then consider "startsWith (c # cs) t" | "includes_str cs t" by auto
    then show "\<exists>pre suf. c # cs = pre @ t @ suf"
    proof cases
      case 1
      then obtain suf where "c # cs = t @ suf" by (auto simp: startsWith_iff)
      then have "c # cs = [] @ t @ suf" by simp
      then show ?thesis by blast
    next
      case 2
      then obtain pre suf where "cs = pre @ t @ suf" using Cons.IH by auto
      then have "c # cs = (c # pre) @ t @ suf" by simp
      then show ?thesis by blast
    qed
  next
    assume "\<exists>pre suf. c # cs = pre @ t @ suf"
    then obtain pre suf where eq: "c # cs = pre @ t @ suf" by blast
    show "includes_str (c # cs) t"
    proof (cases pre)
      case Nil
      with eq have "startsWith (c # cs) t" by (auto simp: startsWith_iff)
      then show ?thesis by simp
    next
      case (Cons p pre')
      with eq have "cs = pre' @ t @ suf" by simp
      then have "includes_str cs t" using Cons.IH by blast
      then show ?thesis by simp
    qed
  qed
qed

subsection \<open>The decimal rendering is injective\<close>

lemma digit_char_inj: "a < 10 \<Longrightarrow> b < 10 \<Longrightarrow> digit_char a = digit_char b \<Longrightarrow> a = b"
  by (simp add: digit_char_def char_of_eq_iff take_bit_nat_eq_self)

lemma digit_char_not_minus: "d < 10 \<Longrightarrow> digit_char d \<noteq> CHR ''-''"
  by (simp add: digit_char_def char_of_eq_iff take_bit_nat_eq_self)

lemma string_of_nat_nonempty: "string_of_nat n \<noteq> []"
  by (subst string_of_nat.simps) simp

lemma string_of_nat_digits: "c \<in> set (string_of_nat n) \<Longrightarrow> c \<noteq> CHR ''-''"
proof (induction n rule: string_of_nat.induct)
  case (1 n)
  show ?case
  proof (cases "n < 10")
    case True
    with "1.prems" show ?thesis
      by (subst (asm) string_of_nat.simps) (simp add: digit_char_not_minus)
  next
    case False
    with "1.prems" have "c \<in> set (string_of_nat (n div 10)) \<or> c = digit_char (n mod 10)"
      by (subst (asm) string_of_nat.simps) auto
    then show ?thesis
      using "1.IH" [OF False] digit_char_not_minus [of "n mod 10"] by auto
  qed
qed

lemma string_of_nat_inj: "string_of_nat m = string_of_nat n \<Longrightarrow> m = n"
proof (induction m arbitrary: n rule: string_of_nat.induct)
  case (1 m)
  show ?case
  proof (cases "m < 10")
    case m: True
    show ?thesis
    proof (cases "n < 10")
      case True
      with m "1.prems" have "[digit_char m] = [digit_char n]"
        by (subst (asm) string_of_nat.simps, subst (asm) (2) string_of_nat.simps) simp
      with m True show ?thesis
        by (simp add: digit_char_inj)
    next
      case False
      then have "string_of_nat n = string_of_nat (n div 10) @ [digit_char (n mod 10)]"
        by (subst string_of_nat.simps) simp
      moreover have "string_of_nat m = [digit_char m]"
        using m by (subst string_of_nat.simps) simp
      ultimately show ?thesis
        using "1.prems" string_of_nat_nonempty [of "n div 10"] by simp
    qed
  next
    case m: False
    then have em: "string_of_nat m = string_of_nat (m div 10) @ [digit_char (m mod 10)]"
      by (subst string_of_nat.simps) simp
    show ?thesis
    proof (cases "n < 10")
      case True
      then have "string_of_nat n = [digit_char n]" by (subst string_of_nat.simps) simp
      with em show ?thesis
        using "1.prems" string_of_nat_nonempty [of "m div 10"] by simp
    next
      case False
      then have en: "string_of_nat n = string_of_nat (n div 10) @ [digit_char (n mod 10)]"
        by (subst string_of_nat.simps) simp
      from em en "1.prems" have
        d: "string_of_nat (m div 10) = string_of_nat (n div 10)"
        and r: "digit_char (m mod 10) = digit_char (n mod 10)"
        by simp_all
      from d have "m div 10 = n div 10"
        using "1.IH" [OF m] by simp
      moreover from r have "m mod 10 = n mod 10"
        by (simp add: digit_char_inj)
      ultimately show ?thesis
        by (metis div_mult_mod_eq)
    qed
  qed
qed

lemma Number_toString_inj: "Number_toString i = Number_toString j \<Longrightarrow> i = j"
proof -
  assume eq: "Number_toString i = Number_toString j"
  have hd_nat: "\<And>n. hd (string_of_nat n) \<noteq> CHR ''-''"
    using string_of_nat_digits string_of_nat_nonempty by (metis hd_in_set)
  consider "i < 0" "j < 0" | "i < 0" "\<not> j < 0" | "\<not> i < 0" "j < 0" | "\<not> i < 0" "\<not> j < 0"
    by blast
  then show "i = j"
  proof cases
    case 1
    with eq have "nat (- i) = nat (- j)"
      by (simp add: Number_toString_def string_of_nat_inj)
    with 1 show ?thesis by simp
  next
    case 2
    with eq have "CHR ''-'' # string_of_nat (nat (- i)) = string_of_nat (nat j)"
      by (simp add: Number_toString_def)
    then have "hd (string_of_nat (nat j)) = CHR ''-''"
      by (metis list.sel(1))
    with hd_nat show ?thesis by blast
  next
    case 3
    with eq have "string_of_nat (nat i) = CHR ''-'' # string_of_nat (nat (- j))"
      by (simp add: Number_toString_def)
    then have "hd (string_of_nat (nat i)) = CHR ''-''"
      by (metis list.sel(1))
    with hd_nat show ?thesis by blast
  next
    case 4
    with eq have "nat i = nat j"
      by (simp add: Number_toString_def string_of_nat_inj)
    with 4 show ?thesis by simp
  qed
qed

subsection \<open>One call of applyTheme\<close>

lemma applyTheme_theme_classes:
  "theme_classes (state_of (applyTheme theme s)) =
     (if theme = ''dark'' then [''theme-dark''] else if theme = ''sepia'' then [''theme-sepia''] else [])"
  by (auto simp: theme_classes_def applyTheme_def setItem_def Let_def classList_remove_def
       classList_add_def filter_empty_conv)

section \<open>The claims\<close>

text \<open>
  C1, as amended. An add whose name and URL are non-empty after trimming and whose URL,
  with \<^verbatim>\<open>https://\<close> put in front where it starts with neither prefix, is accepted by
  \<^verbatim>\<open>new URL\<close>: the list afterwards is the new record followed by the list before, so it
  is one longer, the new record is first and every earlier record is unchanged and in
  its place; the unfiltered view is that list; and \<^verbatim>\<open>saveLinksToStorage\<close> is called with
  it. Where the browser takes the write, the slot \<^verbatim>\<open>savedLinks\<close> holds the JSON text of
  the full new list, and a page that starts from any list \<open>L0\<close> in memory loads the full
  new list from it, whether the rendering that follows the save returns or stops at a
  stored record whose URL does not parse. Where the browser refuses the write, the
  handler ends with the uncaught \<open>QuotaExceededError\<close>: the list in memory has grown, the
  store and the rest of the page are as before.
\<close>

theorem add_valid_link_prepends_and_persists:
  assumes "trim nameV \<noteq> []" and "trim urlV \<noteq> []"
    and "new_URL (prefixed_url (trim urlV)) \<noteq> None"
  shows "let s' = state_of (handleAddLink new_URL now nameV urlV searchV s);
             newLink = \<lparr>link_id = ''link-'' @ Number_toString now, name = trim nameV,
                        url = prefixed_url (trim urlV)\<rparr>
         in links s' = newLink # links s
          \<and> length (links s') = length (links s) + 1
          \<and> filteredLinks (links s') [] = newLink # links s
          \<and> (if setItem_accepts s (localStorage s) ''savedLinks'' (JSON_stringify (newLink # links s))
             then localStorage s' ''savedLinks'' = Some (JSON_stringify (newLink # links s))
                \<and> loadLinksFromStorage (s'\<lparr>links := L0\<rparr>) = Returned s'
             else handleAddLink new_URL now nameV urlV searchV s
                    = Threw QuotaExceededError (s\<lparr>links := newLink # links s\<rparr>))"
proof -
  let ?new = "\<lparr>link_id = ''link-'' @ Number_toString now, name = trim nameV,
               url = prefixed_url (trim urlV)\<rparr>"
  let ?s' = "state_of (handleAddLink new_URL now nameV urlV searchV s)"
  have l: "links ?s' = ?new # links s"
    using assms by (rule handleAddLink_links)
  have f: "filteredLinks (?new # links s) [] = ?new # links s"
    by (simp add: filteredLinks_def trim_def toLowerCase_def)
  have store: "if setItem_accepts s (localStorage s) ''savedLinks'' (JSON_stringify (?new # links s))
     then localStorage ?s' ''savedLinks'' = Some (JSON_stringify (?new # links s))
        \<and> loadLinksFromStorage (?s'\<lparr>links := L0\<rparr>) = Returned ?s'
     else handleAddLink new_URL now nameV urlV searchV s
            = Threw QuotaExceededError (s\<lparr>links := ?new # links s\<rparr>)"
  proof (cases "setItem_accepts s (localStorage s) ''savedLinks'' (JSON_stringify (?new # links s))")
    case True
    let ?s2 = "s\<lparr>links := ?new # links s,
                 localStorage := (localStorage s)(''savedLinks'' \<mapsto> JSON_stringify (?new # links s))\<rparr>"
    have h: "handleAddLink new_URL now nameV urlV searchV s = renderLinks new_URL searchV ?s2"
      using assms True by (simp add: handleAddLink_accepted [where newLink = ?new])
    have "localStorage ?s2 ''savedLinks'' = Some (JSON_stringify (links ?s2))"
      by simp
    then have "loadLinksFromStorage ((state_of (renderLinks new_URL searchV ?s2))\<lparr>links := L0\<rparr>)
        = Returned (state_of (renderLinks new_URL searchV ?s2))"
      by (rule rendered_page_reads_back)
    with True h show ?thesis by simp
  next
    case False
    with assms show ?thesis
      by (simp add: handleAddLink_refused [where newLink = ?new])
  qed
  from l f store show ?thesis
    by (simp add: Let_def)
qed

theorem add_valid_link_prepends_and_persists_witness:
  \<open>trim ''  Example '' \<noteq> [] \<and> trim ''example.com'' \<noteq> []
   \<and> example_URL (prefixed_url (trim ''example.com'')) \<noteq> None
   \<and> links (state_of (handleAddLink example_URL 5 ''  Example '' ''example.com'' []
         (empty_page\<lparr>links := three_links\<rparr>)))
       = \<lparr>link_id = ''link-5'', name = ''Example'', url = ''https://example.com''\<rparr> # three_links
   \<and> localStorage (state_of (handleAddLink example_URL 5 ''  Example '' ''example.com'' [] empty_page))
         ''savedLinks''
       = Some ''[{"id":"link-5","name":"Example","url":"https://example.com"}]''
   \<and> links (state_of (loadLinksFromStorage
         ((state_of (handleAddLink example_URL 5 ''  Example '' ''example.com'' [] empty_page))
            \<lparr>links := []\<rparr>)))
       = [\<lparr>link_id = ''link-5'', name = ''Example'', url = ''https://example.com''\<rparr>]\<close>
proof -
  have h1: "trim ''  Example '' \<noteq> []" by (simp add: trim_examples)
  have h2: "trim ''example.com'' \<noteq> []" by (simp add: trim_examples)
  have h3: "example_URL (prefixed_url (trim ''example.com'')) \<noteq> None"
    by (simp add: trim_examples example_URL_examples)
  have p: "prefixed_url ''example.com'' = ''https://example.com''"
    by (simp add: prefixed_url_def)
  have e: "links empty_page = []" "setItem_accepts empty_page = accept_every_write"
    by (simp_all add: empty_page_def)
  have a: "links (state_of (handleAddLink example_URL 5 ''  Example '' ''example.com'' []
         (empty_page\<lparr>links := three_links\<rparr>)))
       = \<lparr>link_id = ''link-5'', name = ''Example'', url = ''https://example.com''\<rparr> # three_links"
    using add_valid_link_prepends_and_persists [of "''  Example ''" "''example.com''" example_URL 5 "[]"
        "empty_page\<lparr>links := three_links\<rparr>" "[]"] h1 h2 h3
    by (simp add: Let_def trim_examples p Number_toString_examples)
  have b: "localStorage (state_of (handleAddLink example_URL 5 ''  Example '' ''example.com'' [] empty_page))
         ''savedLinks''
       = Some (JSON_stringify [\<lparr>link_id = ''link-5'', name = ''Example'', url = ''https://example.com''\<rparr>])
     \<and> loadLinksFromStorage
         ((state_of (handleAddLink example_URL 5 ''  Example '' ''example.com'' [] empty_page))
            \<lparr>links := []\<rparr>)
       = Returned (state_of (handleAddLink example_URL 5 ''  Example '' ''example.com'' [] empty_page))
     \<and> links (state_of (handleAddLink example_URL 5 ''  Example '' ''example.com'' [] empty_page))
       = [\<lparr>link_id = ''link-5'', name = ''Example'', url = ''https://example.com''\<rparr>]"
    using add_valid_link_prepends_and_persists [of "''  Example ''" "''example.com''" example_URL 5 "[]"
        empty_page "[]"] h1 h2 h3
    by (simp add: Let_def trim_examples p Number_toString_examples e accept_every_write_def)
  from a b h1 h2 h3 show ?thesis
    by (simp add: JSON_stringify_examples)
qed

text \<open>The sentence as written fails in a browser that refuses the write: the valid add
  leaves the new record in the list and nothing in the store.\<close>

theorem add_not_persisted_counterexample:
  "map name (links (state_of (handleAddLink example_URL 5 ''Example'' ''example.com'' [] full_store_page)))
     = [''Example'']
   \<and> localStorage (state_of (handleAddLink example_URL 5 ''Example'' ''example.com'' [] full_store_page))
        ''savedLinks'' = None"
proof -
  have v: "trim ''Example'' \<noteq> []" "trim ''example.com'' \<noteq> []"
    "example_URL (prefixed_url (trim ''example.com'')) \<noteq> None"
    by (simp_all add: trim_examples example_URL_examples)
  have r: "\<not> setItem_accepts full_store_page (localStorage full_store_page) ''savedLinks'' t" for t
    by (simp add: full_store_page_def refuse_every_write_def)
  have "handleAddLink example_URL 5 ''Example'' ''example.com'' [] full_store_page
      = Threw QuotaExceededError (full_store_page\<lparr>links :=
          \<lparr>link_id = ''link-'' @ Number_toString 5, name = trim ''Example'',
            url = prefixed_url (trim ''example.com'')\<rparr> # links full_store_page\<rparr>)"
    using v r by (rule handleAddLink_refused) simp
  then show ?thesis
    by (simp add: trim_examples full_store_page_def empty_page_def)
qed

text \<open>
  C2, as amended. A click on the delete button of a card that carries a non-empty id,
  answered yes at the confirmation: the list afterwards is the list before without the
  records whose id is that id, every other record kept in its place; where no record
  has that id the list is the same; and \<^verbatim>\<open>saveLinksToStorage\<close> is called with the
  resulting list in both cases. Where the browser takes the write, the slot
  \<^verbatim>\<open>savedLinks\<close> holds the JSON text of the resulting list, and a page that starts from
  any list \<open>L0\<close> in memory loads the resulting list from it. Where the browser refuses
  the write, the handler ends with the uncaught \<open>QuotaExceededError\<close>: the list in memory
  is the resulting list, the store and the rest of the page are as before.
\<close>

theorem delete_removes_matching_records_only:
  assumes "''delete-btn'' \<in> set (target_classList e)"
    and "closest_link_card e = Some c"
    and "dataset_id c = Some linkId" and "linkId \<noteq> []"
    and "confirm (delete_question c)"
  shows "let s' = state_of (handleDeleteLink new_URL confirm e searchV s);
             kept = filter (\<lambda>link. link_id link \<noteq> linkId) (links s)
         in links s' = kept
          \<and> (linkId \<notin> link_id ` set (links s) \<longrightarrow> links s' = links s)
          \<and> (if setItem_accepts s (localStorage s) ''savedLinks'' (JSON_stringify kept)
             then localStorage s' ''savedLinks'' = Some (JSON_stringify kept)
                \<and> loadLinksFromStorage (s'\<lparr>links := L0\<rparr>) = Returned s'
             else handleDeleteLink new_URL confirm e searchV s
                    = Threw QuotaExceededError (s\<lparr>links := kept\<rparr>))"
proof -
  let ?kept = "filter (\<lambda>link. link_id link \<noteq> linkId) (links s)"
  let ?s' = "state_of (handleDeleteLink new_URL confirm e searchV s)"
  have absent: "linkId \<notin> link_id ` set (links s) \<Longrightarrow> ?kept = links s"
    by (induction "links s") (auto simp: filter_id_conv)
  have both: "links ?s' = ?kept
     \<and> (if setItem_accepts s (localStorage s) ''savedLinks'' (JSON_stringify ?kept)
        then localStorage ?s' ''savedLinks'' = Some (JSON_stringify ?kept)
           \<and> loadLinksFromStorage (?s'\<lparr>links := L0\<rparr>) = Returned ?s'
        else handleDeleteLink new_URL confirm e searchV s
               = Threw QuotaExceededError (s\<lparr>links := ?kept\<rparr>))"
  proof (cases "setItem_accepts s (localStorage s) ''savedLinks'' (JSON_stringify ?kept)")
    case True
    let ?s2 = "s\<lparr>links := ?kept,
                 localStorage := (localStorage s)(''savedLinks'' \<mapsto> JSON_stringify ?kept)\<rparr>"
    have h: "handleDeleteLink new_URL confirm e searchV s = renderLinks new_URL searchV ?s2"
      using assms refl True by (rule handleDeleteLink_accepted)
    have "localStorage ?s2 ''savedLinks'' = Some (JSON_stringify (links ?s2))"
      by simp
    then have "loadLinksFromStorage ((state_of (renderLinks new_URL searchV ?s2))\<lparr>links := L0\<rparr>)
        = Returned (state_of (renderLinks new_URL searchV ?s2))"
      by (rule rendered_page_reads_back)
    with True h show ?thesis by simp
  next
    case False
    have "handleDeleteLink new_URL confirm e searchV s = Threw QuotaExceededError (s\<lparr>links := ?kept\<rparr>)"
      using assms refl False by (rule handleDeleteLink_refused)
    with False show ?thesis by simp
  qed
  with absent show ?thesis
    by (simp add: Let_def)
qed

theorem delete_removes_matching_records_only_witness:
  \<open>links (state_of (handleDeleteLink example_URL always_confirm (delete_click ''link-2'' ''gitlab'') []
      (empty_page\<lparr>links := three_links\<rparr>))) = [three_links ! 0, three_links ! 2]
   \<and> localStorage (state_of (handleDeleteLink example_URL always_confirm
        (delete_click ''link-2'' ''gitlab'') [] (empty_page\<lparr>links := three_links\<rparr>))) ''savedLinks''
       = Some ''[{"id":"link-3","name":"GitHub","url":"https://github.com"},{"id":"link-1","name":"Reddit","url":"https://reddit.com"}]''
   \<and> links (state_of (handleDeleteLink example_URL always_confirm (delete_click ''link-9'' ''gone'') []
      (empty_page\<lparr>links := three_links\<rparr>))) = three_links
   \<and> localStorage (state_of (handleDeleteLink example_URL always_confirm
        (delete_click ''link-9'' ''gone'') [] (empty_page\<lparr>links := three_links\<rparr>))) ''savedLinks''
       = Some (JSON_stringify three_links)\<close>
proof -
  have e: "setItem_accepts empty_page = accept_every_write"
    by (simp add: empty_page_def)
  have k2: "filter (\<lambda>link. link_id link \<noteq> ''link-2'') three_links = [three_links ! 0, three_links ! 2]"
    by (simp add: three_links_def)
  have k9: "filter (\<lambda>link. link_id link \<noteq> ''link-9'') three_links = three_links"
    by (simp add: three_links_def)
  have a: "links (state_of (handleDeleteLink example_URL always_confirm (delete_click ''link-2'' ''gitlab'') []
             (empty_page\<lparr>links := three_links\<rparr>))) = [three_links ! 0, three_links ! 2]
     \<and> localStorage (state_of (handleDeleteLink example_URL always_confirm
        (delete_click ''link-2'' ''gitlab'') [] (empty_page\<lparr>links := three_links\<rparr>))) ''savedLinks''
       = Some (JSON_stringify [three_links ! 0, three_links ! 2])"
    using delete_removes_matching_records_only [of "delete_click ''link-2'' ''gitlab''"
        "the (closest_link_card (delete_click ''link-2'' ''gitlab''))" "''link-2''" always_confirm
        example_URL "[]" "empty_page\<lparr>links := three_links\<rparr>" "[]"]
    by (simp add: delete_click_def always_confirm_def Let_def e accept_every_write_def k2)
  have b: "links (state_of (handleDeleteLink example_URL always_confirm (delete_click ''link-9'' ''gone'') []
             (empty_page\<lparr>links := three_links\<rparr>))) = three_links
     \<and> localStorage (state_of (handleDeleteLink example_URL always_confirm
        (delete_click ''link-9'' ''gone'') [] (empty_page\<lparr>links := three_links\<rparr>))) ''savedLinks''
       = Some (JSON_stringify three_links)"
    using delete_removes_matching_records_only [of "delete_click ''link-9'' ''gone''"
        "the (closest_link_card (delete_click ''link-9'' ''gone''))" "''link-9''" always_confirm
        example_URL "[]" "empty_page\<lparr>links := three_links\<rparr>" "[]"]
    by (simp add: delete_click_def always_confirm_def Let_def e accept_every_write_def k9)
  from a b show ?thesis
    by (simp add: JSON_stringify_examples)
qed

text \<open>The sentence as written fails in a browser that refuses the write: the confirmed
  delete takes the record out of the list and leaves nothing in the store.\<close>

theorem delete_not_persisted_counterexample:
  "map name (links (state_of (handleDeleteLink example_URL always_confirm
      (delete_click ''link-2'' ''gitlab'') [] (full_store_page\<lparr>links := three_links\<rparr>))))
     = [''GitHub'', ''Reddit'']
   \<and> localStorage (state_of (handleDeleteLink example_URL always_confirm
      (delete_click ''link-2'' ''gitlab'') [] (full_store_page\<lparr>links := three_links\<rparr>))) ''savedLinks''
     = None"
proof -
  let ?s = "full_store_page\<lparr>links := three_links\<rparr>"
  have r: "\<not> setItem_accepts full_store_page store key t" for store key t
    by (simp add: full_store_page_def refuse_every_write_def)
  have "handleDeleteLink example_URL always_confirm (delete_click ''link-2'' ''gitlab'') [] ?s
      = Threw QuotaExceededError (?s\<lparr>links := filter (\<lambda>link. link_id link \<noteq> ''link-2'') (links ?s)\<rparr>)"
    by (rule handleDeleteLink_refused [where c = "the (closest_link_card (delete_click ''link-2'' ''gitlab''))"])
       (simp_all add: delete_click_def always_confirm_def r)
  then show ?thesis
    by (simp add: three_links_def full_store_page_def empty_page_def)
qed

text \<open>
  C3, as amended. The filter of \<^verbatim>\<open>renderLinks\<close> returns the list itself when the search
  term trims to the empty string; otherwise it keeps, in their order, exactly the records
  whose lower-cased name has the lower-cased \<^emph>\<open>trimmed\<close> term as a substring. Only the
  name of a record is looked at. With the names GitHub, gitlab and Reddit the term
  \<^verbatim>\<open>git\<close>, also with white space around it, keeps the first two.
\<close>

theorem filter_matches_trimmed_term_in_name:
  "filteredLinks ls term =
     (if trim term = [] then ls
      else filter (\<lambda>link. \<exists>pre suf. toLowerCase (name link) = pre @ toLowerCase (trim term) @ suf) ls)"
  by (simp add: filteredLinks_def Let_def toLowerCase_def includes_str_iff)

theorem filter_matches_trimmed_term_in_name_witness:
  "filteredLinks three_links ''git'' = take 2 three_links
   \<and> filteredLinks three_links '' git'' = take 2 three_links
   \<and> filteredLinks three_links ''   '' = three_links"
proof -
  have "filteredLinks three_links ''git'' =
          (if trim ''git'' = [] then three_links
           else filter (\<lambda>link. includes_str (toLowerCase (name link)) (toLowerCase (trim ''git'')))
                  three_links)"
    using filter_matches_trimmed_term_in_name [of three_links "''git''"]
    by (simp only: includes_str_iff)
  then have a: "filteredLinks three_links ''git'' = take 2 three_links"
    by (simp add: trim_examples toLowerCase_examples three_links_def)
  have "filteredLinks three_links '' git'' =
          (if trim '' git'' = [] then three_links
           else filter (\<lambda>link. includes_str (toLowerCase (name link)) (toLowerCase (trim '' git'')))
                  three_links)"
    using filter_matches_trimmed_term_in_name [of three_links "'' git''"]
    by (simp only: includes_str_iff)
  then have b: "filteredLinks three_links '' git'' = take 2 three_links"
    by (simp add: trim_examples toLowerCase_examples three_links_def)
  have c: "filteredLinks three_links ''   '' = three_links"
    using filter_matches_trimmed_term_in_name [of three_links "''   ''"]
    by (simp add: trim_examples)
  from a b c show ?thesis by simp
qed

text \<open>The sentence as written fails for a term that ends in a space: the record named
  GitHub is kept for the term \<^verbatim>\<open>git\<close> followed by a space, and its name does not contain
  that term, whatever the case of the letters.\<close>

theorem filter_untrimmed_term_counterexample:
  "filteredLinks [three_links ! 0] ''git '' = [three_links ! 0]
   \<and> \<not> includes_str (toLowerCase (name (three_links ! 0))) (toLowerCase ''git '')"
  by (simp add: filteredLinks_def three_links_def trim_examples toLowerCase_examples)

text \<open>
  C4, as amended. An add whose name and URL are non-empty after trimming and whose URL,
  after the possible prefixing, is refused by \<^verbatim>\<open>new URL\<close>: the handler returns with the
  message of the alert added and nothing else changed, so the list is the same and
  nothing is written to the store.
\<close>

theorem invalid_url_alerts_and_aborts:
  assumes "trim nameV \<noteq> []" and "trim urlV \<noteq> []"
    and "new_URL (prefixed_url (trim urlV)) = None"
  shows "handleAddLink new_URL now nameV urlV searchV s
           = Returned (s\<lparr>alerts := alerts s @ [''Please enter a valid URL.'']\<rparr>)"
  using assms by (simp add: handleAddLink_def Let_def alert_def)

theorem invalid_url_alerts_and_aborts_witness:
  "trim ''x'' \<noteq> [] \<and> trim ''http://'' \<noteq> [] \<and> example_URL (prefixed_url (trim ''http://'')) = None
   \<and> handleAddLink example_URL 5 ''x'' ''http://'' [] empty_page
         = Returned (empty_page\<lparr>alerts := [''Please enter a valid URL.'']\<rparr>)"
proof -
  have h1: "trim ''x'' \<noteq> []" by (simp add: trim_examples)
  have h2: "trim ''http://'' \<noteq> []" by (simp add: trim_examples)
  have h3: "example_URL (prefixed_url (trim ''http://'')) = None"
    by (simp add: trim_examples example_URL_examples)
  have a: "alerts empty_page = []" by (simp add: empty_page_def)
  show ?thesis
    using invalid_url_alerts_and_aborts [of "''x''" "''http://''" example_URL 5 "[]" empty_page] h1 h2 h3
    by (simp add: a)
qed

text \<open>The sentence as written fails where the name is empty: the URL \<^verbatim>\<open>http://\<close> does
  not parse, and the add ends at the check of the fields without an alert.\<close>

theorem invalid_url_without_name_counterexample:
  "example_URL (prefixed_url (trim ''http://'')) = None
   \<and> alerts (state_of (handleAddLink example_URL 5 [] ''http://'' [] empty_page)) = alerts empty_page
   \<and> alerts empty_page = []"
  by (simp add: handleAddLink_def trim_examples example_URL_examples empty_page_def)

text \<open>
  C5. An add whose name or whose URL trims to the empty string returns with the state
  as it was: no alert, the same list, nothing written to the store, the container
  untouched.
\<close>

theorem add_empty_field_is_silent_noop:
  "trim nameV = [] \<or> trim urlV = [] \<Longrightarrow>
   handleAddLink new_URL now nameV urlV searchV s = Returned s"
  by (auto simp: handleAddLink_def Let_def)

theorem add_empty_field_is_silent_noop_witness:
  "trim ''   '' = []
   \<and> handleAddLink example_URL 5 ''   '' ''example.com'' [] empty_page = Returned empty_page"
  using add_empty_field_is_silent_noop [of "''   ''" "''example.com''" example_URL 5 "[]" empty_page]
  by (simp add: trim_examples)

text \<open>
  C6, as amended. An add that stores a record (name and URL non-empty after trimming,
  URL accepted) stores as URL the \<^emph>\<open>trimmed\<close> input when that starts with \<^verbatim>\<open>http://\<close> or
  \<^verbatim>\<open>https://\<close>, and the trimmed input with \<^verbatim>\<open>https://\<close> in front otherwise; the input
  \<^verbatim>\<open>example.com\<close> is stored as \<^verbatim>\<open>https://example.com\<close>.
\<close>

theorem stored_url_is_trimmed_and_prefixed:
  assumes "trim nameV \<noteq> []" and "trim urlV \<noteq> []"
    and "new_URL (prefixed_url (trim urlV)) \<noteq> None"
  shows "url (hd (links (state_of (handleAddLink new_URL now nameV urlV searchV s))))
           = (if startsWith (trim urlV) ''http://'' \<or> startsWith (trim urlV) ''https://''
              then trim urlV else ''https://'' @ trim urlV)"
  using assms handleAddLink_links [of nameV urlV new_URL now searchV s]
  by (simp add: prefixed_url_def)

theorem stored_url_is_trimmed_and_prefixed_witness:
  "trim ''  Example '' \<noteq> [] \<and> trim ''example.com'' \<noteq> []
   \<and> example_URL (prefixed_url (trim ''example.com'')) \<noteq> None
   \<and> url (hd (links (state_of (handleAddLink example_URL 5 ''  Example '' ''example.com'' [] empty_page))))
        = ''https://example.com''"
proof -
  have h1: "trim ''  Example '' \<noteq> []" by (simp add: trim_examples)
  have h2: "trim ''example.com'' \<noteq> []" by (simp add: trim_examples)
  have h3: "example_URL (prefixed_url (trim ''example.com'')) \<noteq> None"
    by (simp add: trim_examples example_URL_examples)
  show ?thesis
    using stored_url_is_trimmed_and_prefixed [of "''  Example ''" "''example.com''" example_URL 5 "[]"
        empty_page] h1 h2 h3
    by (simp add: trim_examples)
qed

text \<open>The sentence as written fails for an input with a space in front: it starts with
  neither prefix, and what is stored is not the input with \<^verbatim>\<open>https://\<close> in front.\<close>

theorem stored_url_untrimmed_counterexample:
  "\<not> startsWith '' example.com'' ''http://'' \<and> \<not> startsWith '' example.com'' ''https://''
   \<and> map url (links (state_of (handleAddLink example_URL 5 ''Example'' '' example.com'' [] empty_page)))
        = [''https://example.com'']
   \<and> ''https://example.com'' \<noteq> ''https://'' @ '' example.com''"
proof -
  have "example_URL (prefixed_url (trim '' example.com'')) \<noteq> None"
    by (simp add: trim_examples example_URL_examples)
  then have "links (state_of (handleAddLink example_URL 5 ''Example'' '' example.com'' [] empty_page))
      = [\<lparr>link_id = ''link-'' @ Number_toString 5, name = ''Example'', url = ''https://example.com''\<rparr>]"
    using handleAddLink_links [of "''Example''" "'' example.com''" example_URL 5 "[]" empty_page]
    by (simp add: trim_examples prefixed_url_def empty_page_def)
  then show ?thesis by simp
qed

text \<open>
  C7. Round trip of the persistence slot: for every sequence \<open>L\<close> of link records and every
  state, when \<^verbatim>\<open>saveLinksToStorage(L)\<close> has returned, \<^verbatim>\<open>loadLinksFromStorage\<close> right after
  it returns, without an exception, and leaves \<open>L\<close> itself in \<^verbatim>\<open>links\<close>, whatever list was
  there; nothing else of the state changes.
\<close>

theorem load_after_save_is_identity:
  assumes "saveLinksToStorage L s = Returned s1"
  shows "loadLinksFromStorage s1 = Returned (s1\<lparr>links := L\<rparr>)"
proof -
  from assms have "s1 = s\<lparr>localStorage := (localStorage s)(''savedLinks'' \<mapsto> JSON_stringify L)\<rparr>"
    by (auto simp: saveLinksToStorage_def setItem_def split: if_splits)
  then have "localStorage s1 ''savedLinks'' = Some (JSON_stringify L)"
    by simp
  then show ?thesis
    by (rule loadLinksFromStorage_reads_back)
qed

theorem load_after_save_is_identity_witness:
  "saveLinksToStorage three_links empty_page
     = Returned (empty_page\<lparr>localStorage := [''savedLinks'' \<mapsto> JSON_stringify three_links]\<rparr>)
   \<and> links empty_page = []
   \<and> loadLinksFromStorage (empty_page\<lparr>localStorage := [''savedLinks'' \<mapsto> JSON_stringify three_links]\<rparr>)
     = Returned (empty_page\<lparr>localStorage := [''savedLinks'' \<mapsto> JSON_stringify three_links],
                             links := three_links\<rparr>)"
proof -
  have s: "saveLinksToStorage three_links empty_page
     = Returned (empty_page\<lparr>localStorage := [''savedLinks'' \<mapsto> JSON_stringify three_links]\<rparr>)"
    by (simp add: saveLinksToStorage_def setItem_def empty_page_def accept_every_write_def)
  have e: "links empty_page = []"
    by (simp add: empty_page_def)
  from s e load_after_save_is_identity [OF s] show ?thesis
    by simp
qed

text \<open>
  C8, as amended. A record created by an add has the id \<^verbatim>\<open>link-\<close> followed by the
  decimal clock reading of that add. Where the ids in the list are distinct and each
  comes from a clock reading other than the present one, the new id is the id of no
  record in the list and the ids stay distinct. Nothing keeps two adds from reading the
  same clock value.
\<close>

theorem new_id_is_fresh_for_a_new_clock_reading:
  assumes "trim nameV \<noteq> []" and "trim urlV \<noteq> []"
    and "new_URL (prefixed_url (trim urlV)) \<noteq> None"
    and "distinct (map link_id (links s))"
    and "\<forall>l \<in> set (links s). \<exists>t. t \<noteq> now \<and> link_id l = ''link-'' @ Number_toString t"
  shows "let s' = state_of (handleAddLink new_URL now nameV urlV searchV s)
         in link_id (hd (links s')) = ''link-'' @ Number_toString now
          \<and> link_id (hd (links s')) \<notin> link_id ` set (links s)
          \<and> distinct (map link_id (links s'))"
proof -
  have fresh: "''link-'' @ Number_toString now \<notin> link_id ` set (links s)"
  proof
    assume "''link-'' @ Number_toString now \<in> link_id ` set (links s)"
    then obtain l where l: "l \<in> set (links s)" "link_id l = ''link-'' @ Number_toString now"
      by auto
    with assms(5) obtain t where "t \<noteq> now" "link_id l = ''link-'' @ Number_toString t"
      by blast
    with l(2) show False
      using Number_toString_inj [of t now] by simp
  qed
  have "links (state_of (handleAddLink new_URL now nameV urlV searchV s))
          = \<lparr>link_id = ''link-'' @ Number_toString now, name = trim nameV,
              url = prefixed_url (trim urlV)\<rparr> # links s"
    using assms(1-3) by (rule handleAddLink_links)
  with fresh assms(4) show ?thesis
    by (simp add: Let_def)
qed

theorem new_id_is_fresh_for_a_new_clock_reading_witness:
  "map link_id (links (state_of (handleAddLink example_URL 5 ''Example'' ''example.com'' []
       (empty_page\<lparr>links := three_links\<rparr>))))
     = [''link-5'', ''link-3'', ''link-2'', ''link-1'']
   \<and> distinct (map link_id (links (state_of (handleAddLink example_URL 5 ''Example'' ''example.com'' []
       (empty_page\<lparr>links := three_links\<rparr>)))))"
proof -
  let ?s = "empty_page\<lparr>links := three_links\<rparr>"
  have h1: "trim ''Example'' \<noteq> []" by (simp add: trim_examples)
  have h2: "trim ''example.com'' \<noteq> []" by (simp add: trim_examples)
  have h3: "example_URL (prefixed_url (trim ''example.com'')) \<noteq> None"
    by (simp add: trim_examples example_URL_examples)
  have h4: "distinct (map link_id (links ?s))"
    by (simp add: three_links_def)
  have n: "Number_toString 3 = ''3''" "Number_toString 2 = ''2''" "Number_toString 1 = ''1''"
    by (simp_all add: Number_toString_def string_of_nat.simps digit_char_def char_of_eq_iff)
  have e3: "\<exists>t::int. t \<noteq> 5 \<and> ''link-3'' = ''link-'' @ Number_toString t"
    by (rule exI [of _ 3]) (simp add: n)
  have e2: "\<exists>t::int. t \<noteq> 5 \<and> ''link-2'' = ''link-'' @ Number_toString t"
    by (rule exI [of _ 2]) (simp add: n)
  have e1: "\<exists>t::int. t \<noteq> 5 \<and> ''link-1'' = ''link-'' @ Number_toString t"
    by (rule exI [of _ 1]) (simp add: n)
  have h5: "\<forall>l \<in> set (links ?s). \<exists>t. t \<noteq> 5 \<and> link_id l = ''link-'' @ Number_toString t"
    using e1 e2 e3 by (simp add: three_links_def)
  have l: "links (state_of (handleAddLink example_URL 5 ''Example'' ''example.com'' [] ?s))
      = \<lparr>link_id = ''link-5'', name = ''Example'', url = ''https://example.com''\<rparr> # three_links"
    using handleAddLink_links [of "''Example''" "''example.com''" example_URL 5 "[]" ?s] h3
    by (simp add: trim_examples prefixed_url_def Number_toString_examples)
  have "let s' = state_of (handleAddLink example_URL 5 ''Example'' ''example.com'' [] ?s)
        in link_id (hd (links s')) = ''link-'' @ Number_toString 5
         \<and> link_id (hd (links s')) \<notin> link_id ` set (links ?s)
         \<and> distinct (map link_id (links s'))"
    using h1 h2 h3 h4 h5 by (rule new_id_is_fresh_for_a_new_clock_reading)
  then have d: "distinct (map link_id (links (state_of
      (handleAddLink example_URL 5 ''Example'' ''example.com'' [] ?s))))"
    by (simp only: Let_def)
  have "map link_id (links (state_of (handleAddLink example_URL 5 ''Example'' ''example.com'' [] ?s)))
      = [''link-5'', ''link-3'', ''link-2'', ''link-1'']"
    unfolding l by (simp add: three_links_def)
  with d show ?thesis by simp
qed

text \<open>The sentence as written fails for two adds at one clock reading: the two records,
  of different names, carry the same id.\<close>

theorem same_clock_reading_same_id_counterexample:
  "map link_id (links (state_of (handleAddLink example_URL 1730000000000 ''GitHub'' ''github.com'' []
      (state_of (handleAddLink example_URL 1730000000000 ''Example'' ''example.com'' [] empty_page)))))
     = [''link-1730000000000'', ''link-1730000000000'']
   \<and> map name (links (state_of (handleAddLink example_URL 1730000000000 ''GitHub'' ''github.com'' []
      (state_of (handleAddLink example_URL 1730000000000 ''Example'' ''example.com'' [] empty_page)))))
     = [''GitHub'', ''Example'']"
proof -
  have u: "example_URL (prefixed_url ''github.com'') \<noteq> None"
    "example_URL (prefixed_url ''example.com'') \<noteq> None"
    by (simp_all add: example_URL_examples)
  have e: "links empty_page = []"
    by (simp add: empty_page_def)
  show ?thesis
    by (simp add: handleAddLink_links trim_examples u Number_toString_examples e)
qed

text \<open>
  C9. With a shelf of three links and the search term \<^verbatim>\<open><b>x</b>\<close>, which no name
  contains, \<^verbatim>\<open>renderLinks\<close> assigns to \<^verbatim>\<open>innerHTML\<close> the message with the term put in
  as it is: the term is part of the markup that the browser parses, where
  \<^verbatim>\<open>createLinkCard\<close> sets the name of a link as \<^verbatim>\<open>textContent\<close>.
\<close>

theorem no_results_message_is_markup:
  \<open>linksContainer (state_of (renderLinks example_URL ''<b>x</b>'' (empty_page\<lparr>links := three_links\<rparr>)))
     = InnerHTML ''<p class="empty-message">No links found matching "<b>x</b>".</p>''\<close>
proof -
  have f: "filteredLinks three_links ''<b>x</b>'' = []"
    by (simp add: filteredLinks_def trim_examples toLowerCase_examples three_links_def)
  show ?thesis
    by (simp add: renderLinks_def f) (simp add: three_links_def)
qed

text \<open>Which of the two messages is shown when the filter keeps nothing.\<close>

lemma renderLinks_no_match:
  assumes "filteredLinks (links s) searchTerm = []"
  shows \<open>renderLinks new_URL searchTerm s =
     Returned (s\<lparr>linksContainer := InnerHTML
        (if links s = [] then ''<p class="empty-message">Your shelf is empty. Add a link to get started!</p>''
         else ''<p class="empty-message">No links found matching "'' @ searchTerm @ ''".</p>'')\<rparr>)\<close>
  using assms by (simp add: renderLinks_def)

text \<open>
  C10. After a non-empty sequence of \<^verbatim>\<open>applyTheme\<close> calls with any names, from any state,
  each call returning or ending at a refused write of the theme, the theme style classes
  of the body are the one class of the last name when that is \<^verbatim>\<open>dark\<close> or \<^verbatim>\<open>sepia\<close>, and
  none for any other name, \<^verbatim>\<open>light\<close> included: \<^verbatim>\<open>dark\<close> then \<^verbatim>\<open>sepia\<close> leaves the sepia
  class alone.
\<close>

theorem themes_are_exclusive:
  assumes "themes \<noteq> []"
  shows "theme_classes (fold (\<lambda>theme s. state_of (applyTheme theme s)) themes s) =
     (if last themes = ''dark'' then [''theme-dark'']
      else if last themes = ''sepia'' then [''theme-sepia''] else [])"
proof -
  from assms obtain ts t where "themes = ts @ [t]"
    by (metis append_butlast_last_id)
  then show ?thesis
    using applyTheme_theme_classes [of t "fold (\<lambda>theme s. state_of (applyTheme theme s)) ts s"]
    by simp
qed

theorem themes_are_exclusive_witness:
  "[''dark'', ''sepia''] \<noteq> []
   \<and> theme_classes (fold (\<lambda>theme s. state_of (applyTheme theme s)) [''dark'', ''sepia'']
        (empty_page\<lparr>body_classList := [''theme-dark'', ''theme-sepia'', ''wide'']\<rparr>)) = [''theme-sepia'']
   \<and> theme_classes (fold (\<lambda>theme s. state_of (applyTheme theme s)) [''sepia'', ''light''] empty_page) = []
   \<and> theme_classes (fold (\<lambda>theme s. state_of (applyTheme theme s)) [''dark'', ''sepia''] full_store_page)
       = [''theme-sepia'']"
  using themes_are_exclusive [of "[''dark'', ''sepia'']"
      "empty_page\<lparr>body_classList := [''theme-dark'', ''theme-sepia'', ''wide'']\<rparr>"]
    themes_are_exclusive [of "[''sepia'', ''light'']" empty_page]
    themes_are_exclusive [of "[''dark'', ''sepia'']" full_store_page]
  by simp

end
